theory Spec2Isabelle
  imports Complex_Main "HOL-Library.Word"
begin

unbundle bit_operations_syntax

section \<open>Bus bell detection: live detector, training features, upload service\<close>

text \<open>
  The development embeds three Python files.
  \<^item> \<^verbatim>\<open>Model/Live-detection.py\<close>: the capture loop, \<^verbatim>\<open>process_audio\<close> and the
    decision on the prediction.
  \<^item> \<^verbatim>\<open>Model/model.py\<close>: \<^verbatim>\<open>extract_features\<close>, the training-time feature transform.
  \<^item> \<^verbatim>\<open>main.py\<close>: the two \<^verbatim>\<open>upload_audio\<close> handlers.

  Exceptions are values of \<open>error\<close>; a function that can raise returns \<open>error + 'a\<close>
  with \<open>Inl\<close> for the exception. Floating-point numbers are embedded as \<open>real\<close>: the
  only arithmetic the sources do themselves on them is a division by \<open>32768\<close> (a power
  of two, exact on 16-bit samples) and comparisons.
\<close>

subsection \<open>Exceptions\<close>

datatype error = KeyboardInterrupt | OSError | ValueError | IndexError

subsection \<open>Live-detection.py: constants\<close>

definition class_names :: "string list" where
  "class_names = [''background'', ''bell'']"

definition SAMPLE_RATE :: nat where
  "SAMPLE_RATE = 22050"

definition DURATION :: real where
  "DURATION = 1.0"

text \<open>
  Python's \<^verbatim>\<open>int(x)\<close> on a float truncates towards zero. The floating-point product
  \<^verbatim>\<open>SAMPLE_RATE * DURATION\<close> is \<open>22050 * 1.0\<close>, which is exact.
\<close>

definition py_int :: "real \<Rightarrow> int" where
  "py_int x = (if 0 \<le> x then \<lfloor>x\<rfloor> else \<lceil>x\<rceil>)"

definition SAMPLES_PER_CHUNK :: nat where
  "SAMPLES_PER_CHUNK = nat (py_int (real SAMPLE_RATE * DURATION))"

subsection \<open>Live-detection.py: the decision on a prediction\<close>

text \<open>
  \<^verbatim>\<open>np.argmax\<close> works on the flattened array and returns the first index of the
  largest entry; on an empty array it raises \<^verbatim>\<open>ValueError\<close>.
\<close>

fun argmax_scan :: "nat \<Rightarrow> real \<Rightarrow> nat \<Rightarrow> real list \<Rightarrow> nat" where
  "argmax_scan best bv i [] = best"
| "argmax_scan best bv i (x # xs) =
     (if bv < x then argmax_scan i x (Suc i) xs else argmax_scan best bv (Suc i) xs)"

definition first_max :: "real list \<Rightarrow> nat" where
  "first_max xs = (case xs of [] \<Rightarrow> 0 | x # r \<Rightarrow> argmax_scan 0 x 1 r)"

definition np_argmax :: "real list list \<Rightarrow> error + nat" where
  "np_argmax a = (if concat a = [] then Inl ValueError else Inr (first_max (concat a)))"

text \<open>Indexing a list with a non-negative index; out of range raises \<^verbatim>\<open>IndexError\<close>.\<close>

definition getitem :: "'a list \<Rightarrow> nat \<Rightarrow> error + 'a" where
  "getitem xs i = (if i < length xs then Inr (xs ! i) else Inl IndexError)"

text \<open>What a cycle prints: the detection line with its confidence, or the final line.\<close>

datatype printed = BellDetected real | StoppedLine

text \<open>
  Lines 46 to 50 of the loop body: \<^verbatim>\<open>class_idx = np.argmax(prediction)\<close>,
  \<^verbatim>\<open>confidence = prediction[0][class_idx]\<close>, then the test
  \<^verbatim>\<open>class_names[class_idx] == "bell" and confidence > 0.9\<close>.
\<close>

definition decide :: "real list list \<Rightarrow> error + printed option" where
  "decide prediction =
     (case np_argmax prediction of Inl e \<Rightarrow> Inl e
      | Inr class_idx \<Rightarrow>
     (case getitem prediction 0 of Inl e \<Rightarrow> Inl e
      | Inr row \<Rightarrow>
     (case getitem row class_idx of Inl e \<Rightarrow> Inl e
      | Inr confidence \<Rightarrow>
     (case getitem class_names class_idx of Inl e \<Rightarrow> Inl e
      | Inr name \<Rightarrow>
        if name = ''bell'' \<and> confidence > 0.9
        then Inr (Some (BellDetected confidence))
        else Inr None))))"

subsection \<open>The MFCC transform of librosa\<close>

text \<open>
  Modelled from the spec: \<^verbatim>\<open>librosa.feature.mfcc\<close> is called by both feature
  extractors and is not part of the repository. The spec gives its framing: a framed
  transform with \<open>n_coeff\<close> coefficients per frame and frame count
  \<open>floor((samples - windowSize) / hopLength) + 1\<close>, or the equivalent centered
  convention, which applies the same formula to the signal padded by half a window on
  each side. Which convention the library uses is the field \<open>center\<close>; the value of
  coefficient \<open>k\<close> of frame \<open>t\<close> is the field \<open>coefficient\<close>, a function of the
  signal and of the parameters of the call. The result has one row per coefficient and
  one column per frame, as the transposition in both callers expects.
\<close>

record mfcc_backend =
  center :: bool
  coefficient :: "real list \<Rightarrow> nat \<Rightarrow> nat \<Rightarrow> nat \<Rightarrow> nat \<Rightarrow> nat \<Rightarrow> real"

definition frame_count :: "bool \<Rightarrow> nat \<Rightarrow> nat \<Rightarrow> nat \<Rightarrow> nat" where
  "frame_count centered samples windowSize hopLength =
     (let n = (if centered then samples + 2 * (windowSize div 2) else samples)
      in nat ((int n - int windowSize) div int hopLength + 1))"

definition mfcc :: "mfcc_backend \<Rightarrow> real list \<Rightarrow> nat \<Rightarrow> nat \<Rightarrow> nat \<Rightarrow> nat \<Rightarrow> real list list" where
  "mfcc lib y sr n_mfcc n_fft hop_length =
     map (\<lambda>k. map (\<lambda>t. coefficient lib y sr n_fft hop_length k t)
                 [0..<frame_count (center lib) (length y) n_fft hop_length])
         [0..<n_mfcc]"

text \<open>The attribute \<^verbatim>\<open>.T\<close> of a two-dimensional array.\<close>

definition T :: "real list list \<Rightarrow> real list list" where
  "T m = transpose m"

text \<open>The shape of a two-dimensional array with at least one row.\<close>

definition shape :: "real list list \<Rightarrow> nat \<times> nat" where
  "shape m = (length m, case m of [] \<Rightarrow> 0 | r # _ \<Rightarrow> length r)"

subsection \<open>Live-detection.py: process_audio\<close>

type_synonym int16 = "16 word"
type_synonym byte = "8 word"

text \<open>\<^verbatim>\<open>audio_data.astype(np.float32) / 32768.0\<close>: no padding, no truncation.\<close>

definition normalized :: "int16 list \<Rightarrow> real list" where
  "normalized audio_data = map (\<lambda>s. real_of_int (sint s) / 32768.0) audio_data"

definition process_audio :: "mfcc_backend \<Rightarrow> int16 list \<Rightarrow> real list list" where
  "process_audio lib audio_data =
     (let audio = normalized audio_data;
          mfccs = mfcc lib audio SAMPLE_RATE 13 2048 512
      in T mfccs)"

subsection \<open>model.py: extract_features\<close>

text \<open>
  \<^verbatim>\<open>librosa.load\<close> (decoding the file, resampling to \<open>sr\<close>, cutting at \<open>duration\<close>) is the
  parameter \<open>load\<close>; it returns the samples as floats or raises. \<^verbatim>\<open>np.pad\<close> with the
  widths \<open>(0, w)\<close> appends \<open>w\<close> zeros and raises on a negative width; the slice
  \<^verbatim>\<open>audio[:k]\<close> keeps the first \<open>k\<close> samples, and for a negative \<open>k\<close> all but the last
  \<open>-k\<close>.
\<close>

definition np_pad_end :: "real list \<Rightarrow> int \<Rightarrow> error + real list" where
  "np_pad_end audio w = (if w < 0 then Inl ValueError else Inr (audio @ replicate (nat w) 0))"

definition slice_to :: "real list \<Rightarrow> int \<Rightarrow> real list" where
  "slice_to audio k =
     (if 0 \<le> k then take (nat k) audio else take (length audio - nat (- k)) audio)"

text \<open>
  The product \<^verbatim>\<open>sr * duration\<close> is a floating-point product: the machine rounds it
  before the comparison and before \<^verbatim>\<open>int\<close>. A product with \<open>1.0\<close> is exact for an
  integer below \<open>2 ^ 53\<close>; this covers the default arguments \<open>duration = 1.0\<close> and
  \<open>sr = 22050\<close>, with which the repository makes its only call. The rounded value of
  any other product is the parameter \<open>fmul\<close>, so that nothing is said about it that
  the machine does not do.
\<close>

definition float_product :: "(nat \<Rightarrow> real \<Rightarrow> real) \<Rightarrow> nat \<Rightarrow> real \<Rightarrow> real" where
  "float_product fmul sr duration =
     (if duration = 1 \<and> sr < 2 ^ 53 then real sr else fmul sr duration)"

definition pad_or_trim ::
  "(nat \<Rightarrow> real \<Rightarrow> real) \<Rightarrow> real list \<Rightarrow> nat \<Rightarrow> real \<Rightarrow> error + real list"
where
  "pad_or_trim fmul audio sr duration =
     (if real (length audio) < float_product fmul sr duration
      then np_pad_end audio (py_int (float_product fmul sr duration) - int (length audio))
      else Inr (slice_to audio (py_int (float_product fmul sr duration))))"

definition extract_features ::
  "(string \<Rightarrow> nat \<Rightarrow> real \<Rightarrow> error + real list) \<Rightarrow> (nat \<Rightarrow> real \<Rightarrow> real) \<Rightarrow> mfcc_backend
     \<Rightarrow> string \<Rightarrow> real \<Rightarrow> nat \<Rightarrow> error + real list list"
where
  "extract_features load fmul lib file_path duration sr =
     (case load file_path sr duration of Inl e \<Rightarrow> Inl e
      | Inr loaded \<Rightarrow>
     (case pad_or_trim fmul loaded sr duration of Inl e \<Rightarrow> Inl e
      | Inr audio \<Rightarrow> Inr (T (mfcc lib audio sr 13 2048 512))))"

subsection \<open>Live-detection.py: the audio stream\<close>

text \<open>\<^verbatim>\<open>np.frombuffer(raw_data, dtype=np.int16)\<close>: two bytes per sample, low byte first.\<close>

fun frombuffer :: "byte list \<Rightarrow> error + int16 list" where
  "frombuffer [] = Inr []"
| "frombuffer [b] = Inl ValueError"
| "frombuffer (lo # hi # r) =
     (case frombuffer r of Inl e \<Rightarrow> Inl e
      | Inr ws \<Rightarrow> Inr ((ucast lo OR push_bit 8 (ucast hi)) # ws))"

text \<open>
  Modelled from the spec: the blocking \<^verbatim>\<open>stream.read\<close> of PyAudio is not part of the
  repository. The spec's \<open>readChunk\<close> blocks until exactly \<open>framesPerChunk\<close> samples are
  available and returns them, and fails on a device fault. The stream was opened with
  \<^verbatim>\<open>paInt16\<close> and one channel, so a frame is two bytes. The device is a buffer of
  bytes captured and not yet read, and a list of future events: more bytes arrive, the
  device fails, or the user interrupts the program while the read blocks. When the
  events run out before the read is satisfied, the read is still blocked.
\<close>

datatype device_event = Arrives "byte list" | Fault | Interrupt

datatype read_result =
    Returned "byte list" "byte list" "device_event list"
  | Blocked "byte list"
  | Threw error "byte list" "device_event list"

fun stream_read :: "nat \<Rightarrow> byte list \<Rightarrow> device_event list \<Rightarrow> read_result" where
  "stream_read num_frames buf [] =
     (if 2 * num_frames \<le> length buf
      then Returned (take (2 * num_frames) buf) (drop (2 * num_frames) buf) []
      else Blocked buf)"
| "stream_read num_frames buf (ev # evs) =
     (if 2 * num_frames \<le> length buf
      then Returned (take (2 * num_frames) buf) (drop (2 * num_frames) buf) (ev # evs)
      else (case ev of
              Arrives bs \<Rightarrow> stream_read num_frames (buf @ bs) evs
            | Fault \<Rightarrow> Threw OSError buf evs
            | Interrupt \<Rightarrow> Threw KeyboardInterrupt buf evs))"

subsection \<open>Live-detection.py: the detection loop\<close>

datatype status = Running | Stopped | Crashed error

text \<open>
  The state of the program: the PyAudio object and its stream, what has been printed,
  the bytes the device holds, and the chunks handed to \<^verbatim>\<open>process_audio\<close> so far.
\<close>

record detector =
  status :: status
  stream_active :: bool
  stream_open :: bool
  pa_initialized :: bool
  printed_lines :: "printed list"
  delivered :: "int16 list list"
  device_buffer :: "byte list"

text \<open>The state after \<^verbatim>\<open>p.open(...)\<close>, when the loop is entered.\<close>

definition listening :: detector where
  "listening = \<lparr>status = Running, stream_active = True, stream_open = True,
     pa_initialized = True, printed_lines = [], delivered = [], device_buffer = []\<rparr>"

text \<open>
  An exception raised inside the \<^verbatim>\<open>try\<close>: the only handler is
  \<^verbatim>\<open>except KeyboardInterrupt\<close>, which stops and closes the stream, terminates PyAudio
  and prints the final line. Any other exception leaves the program with none of these
  calls made.
\<close>

definition raise_in_try :: "error \<Rightarrow> detector \<Rightarrow> detector" where
  "raise_in_try e st =
     (if e = KeyboardInterrupt
      then st\<lparr>stream_active := False, stream_open := False, pa_initialized := False,
              printed_lines := printed_lines st @ [StoppedLine], status := Stopped\<rparr>
      else st\<lparr>status := Crashed e\<rparr>)"

definition bytes_pending :: "device_event list \<Rightarrow> nat" where
  "bytes_pending evs = sum_list (map (\<lambda>ev. case ev of Arrives bs \<Rightarrow> length bs | _ \<Rightarrow> 0) evs)"

text \<open>
  The \<^verbatim>\<open>while True\<close> loop. The loaded Keras model is the parameter \<open>model\<close>: it maps the
  batch to the batch of probability vectors, or raises.
\<close>

function detection_loop ::
  "mfcc_backend \<Rightarrow> (real list list list \<Rightarrow> error + real list list) \<Rightarrow> detector
     \<Rightarrow> device_event list \<Rightarrow> detector"
where
  "detection_loop lib model st evs =
     (case stream_read SAMPLES_PER_CHUNK (device_buffer st) evs of
        Blocked buf \<Rightarrow> st\<lparr>device_buffer := buf\<rparr>
      | Threw e buf evs' \<Rightarrow> raise_in_try e (st\<lparr>device_buffer := buf\<rparr>)
      | Returned raw_data buf evs' \<Rightarrow>
     (case frombuffer raw_data of
        Inl e \<Rightarrow> raise_in_try e (st\<lparr>device_buffer := buf\<rparr>)
      | Inr audio_chunk \<Rightarrow>
     (case model [process_audio lib audio_chunk] of
        Inl e \<Rightarrow> raise_in_try e
                  (st\<lparr>device_buffer := buf, delivered := delivered st @ [audio_chunk]\<rparr>)
      | Inr prediction \<Rightarrow>
     (case decide prediction of
        Inl e \<Rightarrow> raise_in_try e
                  (st\<lparr>device_buffer := buf, delivered := delivered st @ [audio_chunk]\<rparr>)
      | Inr None \<Rightarrow>
          detection_loop lib model
            (st\<lparr>device_buffer := buf, delivered := delivered st @ [audio_chunk]\<rparr>) evs'
      | Inr (Some line) \<Rightarrow>
          detection_loop lib model
            (st\<lparr>device_buffer := buf, delivered := delivered st @ [audio_chunk],
                printed_lines := printed_lines st @ [line]\<rparr>) evs'))))"
  by pat_completeness auto

termination detection_loop
proof (relation "measure (\<lambda>(lib, model, st, evs). length (device_buffer st) + bytes_pending evs)")
  have rd: "length buf' + bytes_pending evs' + 2 * n = length buf + bytes_pending evs"
    if "stream_read n buf evs = Returned raw buf' evs'" for n buf evs raw buf' evs'
    using that
    by (induction n buf evs rule: stream_read.induct)
       (auto simp: bytes_pending_def split: if_splits device_event.splits)
  have n: "SAMPLES_PER_CHUNK = 22050"
    by (simp add: SAMPLES_PER_CHUNK_def py_int_def SAMPLE_RATE_def DURATION_def)
  show "wf (measure (\<lambda>(lib, model, st, evs). length (device_buffer st) + bytes_pending evs))"
    by simp
  show "((lib, model, st\<lparr>device_buffer := buf, delivered := delivered st @ [chunk]\<rparr>, evs'),
         (lib, model, st, evs))
        \<in> measure (\<lambda>(lib, model, st, evs). length (device_buffer st) + bytes_pending evs)"
    if "stream_read SAMPLES_PER_CHUNK (device_buffer st) evs = Returned raw buf evs'"
    for lib :: mfcc_backend and model :: "real list list list \<Rightarrow> error + real list list"
      and st evs raw buf evs' chunk
    using rd [OF that] by (simp add: n)
  show "((lib, model, st\<lparr>device_buffer := buf, delivered := delivered st @ [chunk],
                          printed_lines := printed_lines st @ [line]\<rparr>, evs'),
         (lib, model, st, evs))
        \<in> measure (\<lambda>(lib, model, st, evs). length (device_buffer st) + bytes_pending evs)"
    if "stream_read SAMPLES_PER_CHUNK (device_buffer st) evs = Returned raw buf evs'"
    for lib :: mfcc_backend and model :: "real list list list \<Rightarrow> error + real list list"
      and st evs raw buf evs' chunk line
    using rd [OF that] by (simp add: n)
qed

declare detection_loop.simps [simp del]

subsection \<open>main.py: the upload handlers\<close>

text \<open>
  The file system is a map from path strings to contents. Whether \<^verbatim>\<open>open(path, "wb")\<close>
  succeeds (the directory exists, the path is not a directory, permissions) is a
  parameter \<open>can_open\<close>; on success the file is created or truncated, and
  \<^verbatim>\<open>shutil.copyfileobj\<close> writes the whole upload into it.
\<close>

type_synonym filesystem = "string \<rightharpoonup> byte list"

definition UPLOAD_DIR :: string where
  "UPLOAD_DIR = ''uploads''"

definition file_location :: "string \<Rightarrow> string" where
  "file_location filename = UPLOAD_DIR @ ''/'' @ filename"

definition open_wb :: "(string \<Rightarrow> bool) \<Rightarrow> filesystem \<Rightarrow> string \<Rightarrow> error + filesystem" where
  "open_wb can_open fs path = (if can_open path then Inr (fs(path \<mapsto> [])) else Inl OSError)"

definition copyfileobj :: "byte list \<Rightarrow> filesystem \<Rightarrow> string \<Rightarrow> filesystem" where
  "copyfileobj content fs path = fs(path \<mapsto> (case fs path of None \<Rightarrow> [] | Some old \<Rightarrow> old) @ content)"

text \<open>The first handler, registered on the first \<^verbatim>\<open>app\<close> object.\<close>

definition upload_audio_first ::
  "(string \<Rightarrow> bool) \<Rightarrow> filesystem \<Rightarrow> string \<Rightarrow> byte list \<Rightarrow> error + filesystem \<times> (string \<times> string) list"
where
  "upload_audio_first can_open fs filename content =
     (case open_wb can_open fs (file_location filename) of Inl e \<Rightarrow> Inl e
      | Inr fs' \<Rightarrow>
          Inr (copyfileobj content fs' (file_location filename),
               [(''status'', ''success''), (''filename'', filename)]))"

text \<open>The second handler, registered on the \<^verbatim>\<open>app\<close> object the module ends up exporting.\<close>

definition upload_audio ::
  "(string \<Rightarrow> bool) \<Rightarrow> filesystem \<Rightarrow> string \<Rightarrow> byte list \<Rightarrow> error + filesystem \<times> (string \<times> string) list"
where
  "upload_audio can_open fs filename content =
     (case open_wb can_open fs (file_location filename) of Inl e \<Rightarrow> Inl e
      | Inr fs' \<Rightarrow>
          Inr (copyfileobj content fs' (file_location filename),
               [(''message'', ''Audio file uploaded successfully!''), (''filename'', filename)]))"

section \<open>Properties\<close>

subsection \<open>The decision rule\<close>





subsection \<open>The upload service\<close>

text \<open>
  Claim C10. Both handlers write the uploaded bytes to the path made of \<open>uploads/\<close>
  followed by the client's filename, character for character: nothing is removed or
  replaced, so \<open>../main.py\<close> gives \<open>uploads/../main.py\<close>. Whatever the file system
  held at that path is replaced by the upload, and when the file can be opened the
  response carries the filename unchanged under the key \<open>filename\<close>.
\<close>

theorem upload_audio_verbatim_path:
  "file_location filename = ''uploads/'' @ filename
   \<and> upload_audio can_open fs filename content =
       (if can_open (''uploads/'' @ filename)
        then Inr (fs(''uploads/'' @ filename \<mapsto> content),
                  [(''message'', ''Audio file uploaded successfully!''), (''filename'', filename)])
        else Inl OSError)
   \<and> upload_audio_first can_open fs filename content =
       (if can_open (''uploads/'' @ filename)
        then Inr (fs(''uploads/'' @ filename \<mapsto> content),
                  [(''status'', ''success''), (''filename'', filename)])
        else Inl OSError)
   \<and> file_location ''../main.py'' = ''uploads/../main.py''"
  by (simp add: file_location_def UPLOAD_DIR_def upload_audio_def upload_audio_first_def
        open_wb_def copyfileobj_def)

subsection \<open>Feature extraction\<close>

lemma SAMPLES_PER_CHUNK_eq: "SAMPLES_PER_CHUNK = 22050"
  by (simp add: SAMPLES_PER_CHUNK_def py_int_def SAMPLE_RATE_def DURATION_def)

lemma T_mfcc:
  assumes "0 < n_mfcc"
  shows "T (mfcc lib y sr n_mfcc n_fft hop) =
     map (\<lambda>t. map (\<lambda>k. coefficient lib y sr n_fft hop k t) [0..<n_mfcc])
         [0..<frame_count (center lib) (length y) n_fft hop]"
proof -
  let ?F = "frame_count (center lib) (length y) n_fft hop"
  have "transpose (mfcc lib y sr n_mfcc n_fft hop) =
          map (\<lambda>i. map (\<lambda>j. mfcc lib y sr n_mfcc n_fft hop ! j ! i)
                 [0..<length (mfcc lib y sr n_mfcc n_fft hop)]) [0..<?F]"
    by (rule transpose_rectangle) (use assms in \<open>simp_all add: mfcc_def\<close>)
  also have "\<dots> = map (\<lambda>t. map (\<lambda>k. coefficient lib y sr n_fft hop k t) [0..<n_mfcc]) [0..<?F]"
    by (simp add: mfcc_def)
  finally show ?thesis by (simp add: T_def)
qed

lemma shape_T_mfcc:
  assumes "0 < n_mfcc" and "0 < frame_count (center lib) (length y) n_fft hop"
  shows "shape (T (mfcc lib y sr n_mfcc n_fft hop)) =
           (frame_count (center lib) (length y) n_fft hop, n_mfcc)"
  using assms by (simp add: T_mfcc shape_def upt_conv_Cons split: list.splits)

lemma frame_count_values:
  "frame_count False 22050 2048 512 = 40" "frame_count True 22050 2048 512 = 44"
  "frame_count False 11025 2048 512 = 18" "frame_count True 11025 2048 512 = 22"
  by (simp_all add: frame_count_def)

lemma pad_or_trim_default:
  "pad_or_trim fmul audio 22050 1 =
     Inr (if length audio < 22050 then audio @ replicate (22050 - length audio) 0
          else take 22050 audio)"
  by (auto simp: pad_or_trim_def float_product_def np_pad_end_def slice_to_def py_int_def
        nat_diff_distrib')

lemma length_pad_or_trim_default:
  "pad_or_trim fmul audio 22050 1 = Inr a \<Longrightarrow> length a = 22050"
  by (auto simp: pad_or_trim_default split: if_splits)

lemma length_normalized: "length (normalized audio_data) = length audio_data"
  by (simp add: normalized_def)

lemma shape_process_audio:
  assumes "0 < frame_count (center lib) (length audio_data) 2048 512"
  shows "shape (process_audio lib audio_data) =
           (frame_count (center lib) (length audio_data) 2048 512, 13)"
  using assms by (simp add: process_audio_def shape_T_mfcc length_normalized)


text \<open>
  Claim C7. On a chunk of exactly \<open>SAMPLES_PER_CHUNK = 22050\<close> samples the live feature
  matrix has one row per frame and 13 coefficients in each row. The number of frames is
  \<open>floor((22050 - 2048) / 512) + 1 = 40\<close> when the library frames without centering,
  and the same formula on the signal padded by half a window on each side, that is 44,
  when it centers. Every feature matrix \<open>extract_features\<close> produces for training has
  this very shape.
\<close>

theorem exact_chunk_feature_shape:
  assumes "length audio_data = SAMPLES_PER_CHUNK"
  shows "shape (process_audio lib audio_data) = (frame_count (center lib) 22050 2048 512, 13)
       \<and> int (frame_count False 22050 2048 512) = \<lfloor>(22050 - 2048) / (512 :: real)\<rfloor> + 1
       \<and> int (frame_count True 22050 2048 512) = \<lfloor>((22050 + 2 * (2048 div 2)) - 2048) / (512 :: real)\<rfloor> + 1
       \<and> frame_count (center lib) 22050 2048 512 = (if center lib then 44 else 40)
       \<and> (\<forall>load fmul file_path feats.
             extract_features load fmul lib file_path 1 22050 = Inr feats
               \<longrightarrow> shape feats = shape (process_audio lib audio_data))"
proof -
  have pos: "0 < frame_count (center lib) 22050 2048 512"
    by (cases "center lib") (simp_all add: frame_count_values)
  have live: "shape (process_audio lib audio_data) = (frame_count (center lib) 22050 2048 512, 13)"
    using shape_process_audio [of lib audio_data] pos assms by (simp add: SAMPLES_PER_CHUNK_eq)
  have train: "shape feats = (frame_count (center lib) 22050 2048 512, 13)"
    if "extract_features load fmul lib file_path 1 22050 = Inr feats" for load fmul file_path feats
  proof -
    from that obtain loaded audio where
      p: "pad_or_trim fmul loaded 22050 1 = Inr audio" and f: "feats = T (mfcc lib audio 22050 13 2048 512)"
      by (auto simp: extract_features_def split: sum.splits)
    have "length audio = 22050" using p by (rule length_pad_or_trim_default)
    with pos show ?thesis by (simp add: f shape_T_mfcc)
  qed
  have f1: "int (frame_count False 22050 2048 512) = \<lfloor>(22050 - 2048) / (512 :: real)\<rfloor> + 1"
    by (simp add: frame_count_values)
  have f2: "int (frame_count True 22050 2048 512) = \<lfloor>((22050 + 2 * (2048 div 2)) - 2048) / (512 :: real)\<rfloor> + 1"
    by (simp add: frame_count_values)
  have f3: "frame_count (center lib) 22050 2048 512 = (if center lib then 44 else 40)"
    by (simp add: frame_count_values)
  show ?thesis using live train f1 f2 f3 by simp
qed


theorem exact_chunk_feature_shape_witness:
  "length (replicate SAMPLES_PER_CHUNK (0 :: int16)) = SAMPLES_PER_CHUNK
   \<and> shape (process_audio \<lparr>center = True, coefficient = (\<lambda>y sr n_fft hop k t. 0)\<rparr>
              (replicate SAMPLES_PER_CHUNK 0)) = (44, 13)
   \<and> (\<exists>feats. extract_features (\<lambda>p sr d. Inr [0.5]) (\<lambda>sr d. real sr * d)
                  \<lparr>center = True, coefficient = (\<lambda>y sr n_fft hop k t. 0)\<rparr>
                  ''dataset/bell/a.wav'' 1 22050 = Inr feats
              \<and> shape feats = (44, 13))"
proof -
  let ?lib = "\<lparr>center = True, coefficient = (\<lambda>y sr n_fft hop k t. 0)\<rparr>"
  have len: "length (replicate SAMPLES_PER_CHUNK (0 :: int16)) = SAMPLES_PER_CHUNK"
    by simp
  have ex: "extract_features (\<lambda>p sr d. Inr [0.5]) (\<lambda>sr d. real sr * d) ?lib
               ''dataset/bell/a.wav'' 1 22050
              = Inr (T (mfcc ?lib ([0.5] @ replicate 22049 0) 22050 13 2048 512))"
    by (simp add: extract_features_def pad_or_trim_default)
  from exact_chunk_feature_shape [OF len, of ?lib] ex len show ?thesis
    by simp
qed


subsection \<open>The detection loop\<close>

lemma stream_read_Returned_length:
  "stream_read n buf evs = Returned raw buf' evs' \<Longrightarrow> length raw = 2 * n"
  by (induction n buf evs rule: stream_read.induct)
     (auto split: if_splits device_event.splits)

lemma frombuffer_even:
  "even (length raw) \<Longrightarrow> \<exists>ws. frombuffer raw = Inr ws \<and> 2 * length ws = length raw"
  by (induction raw rule: frombuffer.induct) auto

lemma frombuffer_length:
  "frombuffer raw = Inr ws \<Longrightarrow> 2 * length ws = length raw"
  by (induction raw arbitrary: ws rule: frombuffer.induct) (auto split: sum.splits)

lemma frombuffer_replicate:
  "frombuffer (replicate (2 * n) b) = Inr (replicate n (ucast b OR push_bit 8 (ucast b)))"
  by (induction n) auto

lemma delivered_raise_in_try [simp]: "delivered (raise_in_try e st) = delivered st"
  by (simp add: raise_in_try_def)

lemma detection_loop_delivered:
  "\<forall>c\<in>set (delivered st). length c = SAMPLES_PER_CHUNK
     \<Longrightarrow> \<forall>c\<in>set (delivered (detection_loop lib model st evs)). length c = SAMPLES_PER_CHUNK"
proof (induction lib model st evs rule: detection_loop.induct)
  case (1 lib model st evs)
  show ?case
  proof (cases "stream_read SAMPLES_PER_CHUNK (device_buffer st) evs")
    case (Returned raw buf evs')
    then have len: "length raw = 2 * SAMPLES_PER_CHUNK" by (rule stream_read_Returned_length)
    show ?thesis
    proof (cases "frombuffer raw")
      case (Inl e)
      then show ?thesis using Returned "1.prems"
        by (subst detection_loop.simps) simp
    next
      case (Inr chunk)
      then have cl: "length chunk = SAMPLES_PER_CHUNK"
        using len frombuffer_length by fastforce
      show ?thesis
      proof (cases "model [process_audio lib chunk]")
        case (Inl e)
        then show ?thesis using Returned Inr cl "1.prems"
          by (subst detection_loop.simps) simp
      next
        case pred: (Inr prediction)
        show ?thesis
        proof (cases "decide prediction")
          case (Inl e)
          then show ?thesis using Returned Inr pred cl "1.prems"
            by (subst detection_loop.simps) simp
        next
          case dec: (Inr r)
          show ?thesis
          proof (cases r)
            case None
            have "\<forall>c\<in>set (delivered (detection_loop lib model
                     (st\<lparr>device_buffer := buf, delivered := delivered st @ [chunk]\<rparr>) evs')).
                    length c = SAMPLES_PER_CHUNK"
              using Returned Inr pred dec None cl "1.prems"
              by (intro "1.IH"(1)) auto
            then show ?thesis using Returned Inr pred dec None
              by (subst detection_loop.simps) simp
          next
            case (Some line)
            have "\<forall>c\<in>set (delivered (detection_loop lib model
                     (st\<lparr>device_buffer := buf, delivered := delivered st @ [chunk],
                         printed_lines := printed_lines st @ [line]\<rparr>) evs')).
                    length c = SAMPLES_PER_CHUNK"
              using Returned Inr pred dec Some cl "1.prems"
              by (intro "1.IH"(2)) auto
            then show ?thesis using Returned Inr pred dec Some
              by (subst detection_loop.simps) simp
          qed
        qed
      qed
    qed
  next
    case (Blocked buf)
    then show ?thesis using "1.prems" by (subst detection_loop.simps) simp
  next
    case (Threw e buf evs')
    then show ?thesis using "1.prems" by (subst detection_loop.simps) simp
  qed
qed


lemma loop_blocked:
  "stream_read SAMPLES_PER_CHUNK (device_buffer st) evs = Blocked buf
     \<Longrightarrow> detection_loop lib model st evs = st\<lparr>device_buffer := buf\<rparr>"
  by (subst detection_loop.simps) simp

lemma loop_read_raises:
  "stream_read SAMPLES_PER_CHUNK (device_buffer st) evs = Threw e buf evs'
     \<Longrightarrow> detection_loop lib model st evs = raise_in_try e (st\<lparr>device_buffer := buf\<rparr>)"
  by (subst detection_loop.simps) simp

lemma loop_predict_raises:
  "stream_read SAMPLES_PER_CHUNK (device_buffer st) evs = Returned raw buf evs'
     \<Longrightarrow> frombuffer raw = Inr chunk
     \<Longrightarrow> model [process_audio lib chunk] = Inl e
     \<Longrightarrow> detection_loop lib model st evs =
           raise_in_try e (st\<lparr>device_buffer := buf, delivered := delivered st @ [chunk]\<rparr>)"
  by (subst detection_loop.simps) simp

lemma loop_decide_raises:
  "stream_read SAMPLES_PER_CHUNK (device_buffer st) evs = Returned raw buf evs'
     \<Longrightarrow> frombuffer raw = Inr chunk
     \<Longrightarrow> model [process_audio lib chunk] = Inr prediction
     \<Longrightarrow> decide prediction = Inl e
     \<Longrightarrow> detection_loop lib model st evs =
           raise_in_try e (st\<lparr>device_buffer := buf, delivered := delivered st @ [chunk]\<rparr>)"
  by (subst detection_loop.simps) simp

lemma loop_silent_cycle:
  "stream_read SAMPLES_PER_CHUNK (device_buffer st) evs = Returned raw buf evs'
     \<Longrightarrow> frombuffer raw = Inr chunk
     \<Longrightarrow> model [process_audio lib chunk] = Inr prediction
     \<Longrightarrow> decide prediction = Inr None
     \<Longrightarrow> detection_loop lib model st evs =
           detection_loop lib model
             (st\<lparr>device_buffer := buf, delivered := delivered st @ [chunk]\<rparr>) evs'"
  by (subst detection_loop.simps) simp

lemma loop_detection_cycle:
  "stream_read SAMPLES_PER_CHUNK (device_buffer st) evs = Returned raw buf evs'
     \<Longrightarrow> frombuffer raw = Inr chunk
     \<Longrightarrow> model [process_audio lib chunk] = Inr prediction
     \<Longrightarrow> decide prediction = Inr (Some line)
     \<Longrightarrow> detection_loop lib model st evs =
           detection_loop lib model
             (st\<lparr>device_buffer := buf, delivered := delivered st @ [chunk],
                 printed_lines := printed_lines st @ [line]\<rparr>) evs'"
  by (subst detection_loop.simps) simp

lemma frombuffer_chunk_of:
  "frombuffer (replicate 44100 b) = Inr (replicate 22050 (ucast b OR push_bit 8 (ucast b)))"
  using frombuffer_replicate [of 22050 b] by simp

lemma status_raise_in_try: "status (raise_in_try e st) \<noteq> Running"
  by (simp add: raise_in_try_def)

lemma stream_read_append:
  "stream_read n buf (evs @ later) =
     (case stream_read n buf evs of
        Blocked b \<Rightarrow> stream_read n b later
      | Returned r b es \<Rightarrow> Returned r b (es @ later)
      | Threw e b es \<Rightarrow> Threw e b (es @ later))"
proof (induction evs arbitrary: buf)
  case Nil
  then show ?case by (cases later) simp_all
next
  case (Cons ev evs)
  then show ?case by (cases ev) simp_all
qed

lemma loop_ignores_buffer_field:
  "detection_loop lib model (st\<lparr>device_buffer := b\<rparr>) evs =
     (case stream_read SAMPLES_PER_CHUNK b evs of
        Blocked buf \<Rightarrow> st\<lparr>device_buffer := buf\<rparr>
      | Threw e buf evs' \<Rightarrow> raise_in_try e (st\<lparr>device_buffer := buf\<rparr>)
      | Returned raw_data buf evs' \<Rightarrow>
     (case frombuffer raw_data of
        Inl e \<Rightarrow> raise_in_try e (st\<lparr>device_buffer := buf\<rparr>)
      | Inr audio_chunk \<Rightarrow>
     (case model [process_audio lib audio_chunk] of
        Inl e \<Rightarrow> raise_in_try e
                  (st\<lparr>device_buffer := buf, delivered := delivered st @ [audio_chunk]\<rparr>)
      | Inr prediction \<Rightarrow>
     (case decide prediction of
        Inl e \<Rightarrow> raise_in_try e
                  (st\<lparr>device_buffer := buf, delivered := delivered st @ [audio_chunk]\<rparr>)
      | Inr None \<Rightarrow>
          detection_loop lib model
            (st\<lparr>device_buffer := buf, delivered := delivered st @ [audio_chunk]\<rparr>) evs'
      | Inr (Some line) \<Rightarrow>
          detection_loop lib model
            (st\<lparr>device_buffer := buf, delivered := delivered st @ [audio_chunk],
                printed_lines := printed_lines st @ [line]\<rparr>) evs'))))"
  by (subst detection_loop.simps) (simp split: read_result.split sum.split option.split)

lemma loop_append:
  "status st = Running \<Longrightarrow>
     detection_loop lib model st (evs @ later) =
       (if status (detection_loop lib model st evs) = Running
        then detection_loop lib model (detection_loop lib model st evs) later
        else detection_loop lib model st evs)"
proof (induction lib model st evs rule: detection_loop.induct)
  case (1 lib model st evs)
  note run = "1.prems"
  show ?case
  proof (cases "stream_read SAMPLES_PER_CHUNK (device_buffer st) evs")
    case (Blocked b)
    have f: "detection_loop lib model st evs = st\<lparr>device_buffer := b\<rparr>"
      using Blocked by (rule loop_blocked)
    have "detection_loop lib model st (evs @ later) =
            detection_loop lib model (st\<lparr>device_buffer := b\<rparr>) later"
      by (subst detection_loop.simps, subst loop_ignores_buffer_field)
         (simp add: stream_read_append Blocked)
    then show ?thesis using run by (simp add: f)
  next
    case (Threw e b es)
    have f: "detection_loop lib model st evs = raise_in_try e (st\<lparr>device_buffer := b\<rparr>)"
      using Threw by (rule loop_read_raises)
    have "detection_loop lib model st (evs @ later) = raise_in_try e (st\<lparr>device_buffer := b\<rparr>)"
      by (rule loop_read_raises [where evs' = "es @ later"]) (simp add: stream_read_append Threw)
    then show ?thesis by (simp add: f status_raise_in_try)
  next
    case (Returned raw buf es)
    have rd: "stream_read SAMPLES_PER_CHUNK (device_buffer st) (evs @ later) = Returned raw buf (es @ later)"
      by (simp add: stream_read_append Returned)
    show ?thesis
    proof (cases "frombuffer raw")
      case (Inl e)
      have "detection_loop lib model st evs = raise_in_try e (st\<lparr>device_buffer := buf\<rparr>)"
        "detection_loop lib model st (evs @ later) = raise_in_try e (st\<lparr>device_buffer := buf\<rparr>)"
        using Returned rd Inl by (subst detection_loop.simps, simp)+
      then show ?thesis by (simp add: status_raise_in_try)
    next
      case (Inr chunk)
      show ?thesis
      proof (cases "model [process_audio lib chunk]")
        case (Inl e)
        have "detection_loop lib model st evs =
                raise_in_try e (st\<lparr>device_buffer := buf, delivered := delivered st @ [chunk]\<rparr>)"
          "detection_loop lib model st (evs @ later) =
                raise_in_try e (st\<lparr>device_buffer := buf, delivered := delivered st @ [chunk]\<rparr>)"
          using Returned rd Inr Inl by (auto intro: loop_predict_raises)
        then show ?thesis by (simp add: status_raise_in_try)
      next
        case pred: (Inr prediction)
        show ?thesis
        proof (cases "decide prediction")
          case (Inl e)
          have "detection_loop lib model st evs =
                  raise_in_try e (st\<lparr>device_buffer := buf, delivered := delivered st @ [chunk]\<rparr>)"
            "detection_loop lib model st (evs @ later) =
                  raise_in_try e (st\<lparr>device_buffer := buf, delivered := delivered st @ [chunk]\<rparr>)"
            using Returned rd Inr pred Inl by (auto intro: loop_decide_raises)
          then show ?thesis by (simp add: status_raise_in_try)
        next
          case dec: (Inr r)
          show ?thesis
          proof (cases r)
            case None
            let ?st = "st\<lparr>device_buffer := buf, delivered := delivered st @ [chunk]\<rparr>"
            have a: "detection_loop lib model st evs = detection_loop lib model ?st es"
              using Returned Inr pred dec None by (auto intro: loop_silent_cycle)
            have b: "detection_loop lib model st (evs @ later) = detection_loop lib model ?st (es @ later)"
              using rd Inr pred dec None by (auto intro: loop_silent_cycle)
            have "detection_loop lib model ?st (es @ later) =
                   (if status (detection_loop lib model ?st es) = Running
                    then detection_loop lib model (detection_loop lib model ?st es) later
                    else detection_loop lib model ?st es)"
              using Returned Inr pred dec None run by (intro "1.IH"(1)) auto
            then show ?thesis by (simp add: a b)
          next
            case (Some line)
            let ?st = "st\<lparr>device_buffer := buf, delivered := delivered st @ [chunk],
                           printed_lines := printed_lines st @ [line]\<rparr>"
            have a: "detection_loop lib model st evs = detection_loop lib model ?st es"
              using Returned Inr pred dec Some by (auto intro: loop_detection_cycle)
            have b: "detection_loop lib model st (evs @ later) = detection_loop lib model ?st (es @ later)"
              using rd Inr pred dec Some by (auto intro: loop_detection_cycle)
            have "detection_loop lib model ?st (es @ later) =
                   (if status (detection_loop lib model ?st es) = Running
                    then detection_loop lib model (detection_loop lib model ?st es) later
                    else detection_loop lib model ?st es)"
              using Returned Inr pred dec Some run by (intro "1.IH"(2)) auto
            then show ?thesis by (simp add: a b)
          qed
        qed
      qed
    qed
  qed
qed


lemma stream_read_Blocked:
  "stream_read n buf evs = Blocked b \<Longrightarrow> length b < 2 * n"
  by (induction n buf evs rule: stream_read.induct)
     (auto split: if_splits device_event.splits)

lemma loop_final:
  "(status (detection_loop lib model st evs) = status st
      \<and> stream_active (detection_loop lib model st evs) = stream_active st
      \<and> stream_open (detection_loop lib model st evs) = stream_open st
      \<and> pa_initialized (detection_loop lib model st evs) = pa_initialized st
      \<and> length (device_buffer (detection_loop lib model st evs)) < 2 * SAMPLES_PER_CHUNK)
   \<or> (status (detection_loop lib model st evs) = Stopped
      \<and> \<not> stream_active (detection_loop lib model st evs)
      \<and> \<not> stream_open (detection_loop lib model st evs)
      \<and> \<not> pa_initialized (detection_loop lib model st evs)
      \<and> (\<exists>ls. printed_lines (detection_loop lib model st evs) = ls @ [StoppedLine]))
   \<or> (\<exists>e. e \<noteq> KeyboardInterrupt
      \<and> status (detection_loop lib model st evs) = Crashed e
      \<and> stream_active (detection_loop lib model st evs) = stream_active st
      \<and> stream_open (detection_loop lib model st evs) = stream_open st
      \<and> pa_initialized (detection_loop lib model st evs) = pa_initialized st)"
proof (induction lib model st evs rule: detection_loop.induct)
  case (1 lib model st evs)
  have raised: "(status (raise_in_try e s) = Stopped
      \<and> \<not> stream_active (raise_in_try e s)
      \<and> \<not> stream_open (raise_in_try e s)
      \<and> \<not> pa_initialized (raise_in_try e s)
      \<and> (\<exists>ls. printed_lines (raise_in_try e s) = ls @ [StoppedLine]))
   \<or> (\<exists>e'. e' \<noteq> KeyboardInterrupt
      \<and> status (raise_in_try e s) = Crashed e'
      \<and> stream_active (raise_in_try e s) = stream_active s
      \<and> stream_open (raise_in_try e s) = stream_open s
      \<and> pa_initialized (raise_in_try e s) = pa_initialized s)" for e s
    by (simp add: raise_in_try_def)
  show ?case
  proof (cases "stream_read SAMPLES_PER_CHUNK (device_buffer st) evs")
    case (Blocked b)
    then show ?thesis by (simp add: loop_blocked stream_read_Blocked)
  next
    case (Threw e b es)
    show ?thesis
      using raised [of e "st\<lparr>device_buffer := b\<rparr>"]
      by (simp add: loop_read_raises [OF Threw])
  next
    case (Returned raw buf es)
    show ?thesis
    proof (cases "frombuffer raw")
      case (Inl e)
      have "detection_loop lib model st evs = raise_in_try e (st\<lparr>device_buffer := buf\<rparr>)"
        using Returned Inl by (subst detection_loop.simps) simp
      then show ?thesis using raised [of e "st\<lparr>device_buffer := buf\<rparr>"] by simp
    next
      case (Inr chunk)
      show ?thesis
      proof (cases "model [process_audio lib chunk]")
        case (Inl e)
        show ?thesis
          using raised [of e "st\<lparr>device_buffer := buf, delivered := delivered st @ [chunk]\<rparr>"]
          by (simp add: loop_predict_raises [where model = model and lib = lib, OF Returned Inr Inl])
      next
        case pred: (Inr prediction)
        show ?thesis
        proof (cases "decide prediction")
          case (Inl e)
          show ?thesis
            using raised [of e "st\<lparr>device_buffer := buf, delivered := delivered st @ [chunk]\<rparr>"]
            by (simp add: loop_decide_raises [where model = model and lib = lib, OF Returned Inr pred Inl])
        next
          case dec: (Inr r)
          show ?thesis
          proof (cases r)
            case None
            show ?thesis
              using "1.IH"(1) [OF Returned Inr pred dec None] dec None
              by (simp add: loop_silent_cycle [where model = model and lib = lib, OF Returned Inr pred])
          next
            case (Some line)
            show ?thesis
              using "1.IH"(2) [OF Returned Inr pred dec Some] dec Some
              by (simp add: loop_detection_cycle [where model = model and lib = lib, OF Returned Inr pred])
          qed
        qed
      qed
    qed
  qed
qed


lemma run_one_chunk:
  "detection_loop lib (\<lambda>batch. Inr [[0.05, 0.95]]) listening [Arrives (replicate 44100 0)]
     = listening\<lparr>delivered := [replicate 22050 0], printed_lines := [BellDetected 0.95]\<rparr>"
  apply (subst detection_loop.simps)
  apply (simp add: listening_def SAMPLES_PER_CHUNK_eq frombuffer_chunk_of decide_def np_argmax_def first_max_def getitem_def class_names_def)
  apply (subst detection_loop.simps)
  apply (simp add: SAMPLES_PER_CHUNK_eq)
  done

text \<open>
  Claim C9. \<open>SAMPLES_PER_CHUNK\<close> is \<open>int(22050 * 1.0) = 22050\<close>. A read that
  returns hands back exactly \<open>2 * SAMPLES_PER_CHUNK\<close> bytes, which \<^verbatim>\<open>np.frombuffer\<close>
  turns into exactly \<open>SAMPLES_PER_CHUNK\<close> signed 16-bit samples, and every chunk the
  loop has handed to \<open>process_audio\<close>, in any run and at any cycle, has that length.
\<close>

theorem chunks_have_exact_length:
  "SAMPLES_PER_CHUNK = 22050
   \<and> (\<forall>c\<in>set (delivered (detection_loop lib model listening evs)). length c = SAMPLES_PER_CHUNK)
   \<and> (\<forall>raw buf' evs'.
         stream_read SAMPLES_PER_CHUNK buf evs = Returned raw buf' evs' \<longrightarrow>
           length raw = 2 * SAMPLES_PER_CHUNK
           \<and> (\<exists>chunk. frombuffer raw = Inr chunk \<and> length chunk = SAMPLES_PER_CHUNK))"
proof -
  have a: "\<forall>c\<in>set (delivered (detection_loop lib model listening evs)). length c = SAMPLES_PER_CHUNK"
    by (rule detection_loop_delivered) (simp add: listening_def)
  have b: "length raw = 2 * SAMPLES_PER_CHUNK
           \<and> (\<exists>chunk. frombuffer raw = Inr chunk \<and> length chunk = SAMPLES_PER_CHUNK)"
    if "stream_read SAMPLES_PER_CHUNK buf evs = Returned raw buf' evs'" for raw buf' evs'
  proof -
    have len: "length raw = 2 * SAMPLES_PER_CHUNK"
      using that by (rule stream_read_Returned_length)
    then obtain ws where "frombuffer raw = Inr ws" "2 * length ws = length raw"
      using frombuffer_even [of raw] by auto
    with len show ?thesis by simp
  qed
  show ?thesis using a b by (simp add: SAMPLES_PER_CHUNK_eq)
qed

theorem chunks_have_exact_length_witness:
  "delivered (detection_loop \<lparr>center = True, coefficient = (\<lambda>y sr n_fft hop k t. 0)\<rparr>
                (\<lambda>batch. Inr [[0.05, 0.95]]) listening [Arrives (replicate 44100 0)])
     = [replicate 22050 0]
   \<and> length (hd (delivered (detection_loop \<lparr>center = True, coefficient = (\<lambda>y sr n_fft hop k t. 0)\<rparr>
                (\<lambda>batch. Inr [[0.05, 0.95]]) listening [Arrives (replicate 44100 0)])))
        = 22050
   \<and> stream_read SAMPLES_PER_CHUNK [] [Arrives (replicate 44100 0)]
        = Returned (replicate 44100 0) [] []
   \<and> frombuffer (replicate 44100 0) = Inr (replicate 22050 0)"
proof -
  let ?lib = "\<lparr>center = True, coefficient = (\<lambda>y sr n_fft hop k t. 0)\<rparr>"
  let ?run = "detection_loop ?lib (\<lambda>batch. Inr [[0.05, 0.95]]) listening
                [Arrives (replicate 44100 0)]"
  note t = chunks_have_exact_length
    [of ?lib "\<lambda>batch. Inr [[0.05, 0.95]]" "[Arrives (replicate 44100 0)]" "[]"]
  from t have n: "SAMPLES_PER_CHUNK = 22050"
    by (rule conjunct1)
  from t have "\<forall>c\<in>set (delivered ?run). length c = SAMPLES_PER_CHUNK"
    by blast
  then have inv: "\<forall>c\<in>set (delivered ?run). length c = 22050"
    unfolding n .
  have d: "delivered ?run = [replicate 22050 0]"
    by (subst run_one_chunk) (simp add: listening_def)
  have rd: "stream_read SAMPLES_PER_CHUNK [] [Arrives (replicate 44100 0)]
              = Returned (replicate 44100 0) [] []"
    by (simp add: n)
  have fb: "frombuffer (replicate 44100 0) = Inr (replicate 22050 0)"
    by (simp add: frombuffer_chunk_of)
  have "hd (delivered ?run) \<in> set (delivered ?run)"
    by (subst d, subst d) simp
  with inv have h: "length (hd (delivered ?run)) = 22050"
    by blast
  show ?thesis
    using d h rd fb by blast
qed

lemma run_fault:
  "detection_loop lib model listening [Fault]
   = \<lparr>status = Crashed OSError, stream_active = True, stream_open = True,
      pa_initialized = True, printed_lines = [], delivered = [], device_buffer = []\<rparr>"
  apply (subst detection_loop.simps)
  apply (simp add: listening_def SAMPLES_PER_CHUNK_eq raise_in_try_def)
  done

text \<open>
  Claim C4, as the code has it. The loop body has no handler of its own, and the one
  handler around the loop is for \<open>KeyboardInterrupt\<close>. So when, in a cycle whose read
  has returned a chunk, \<^verbatim>\<open>model.predict\<close> or the decision step raises any other
  exception, the loop ends in that cycle: the state is the one before the cycle plus
  the chunk just delivered, marked as crashed with that exception. Nothing is printed,
  no later chunk is read or processed whatever the device still delivers, and none of
  the release calls is made. (In the embedding \<open>process_audio\<close> itself has no failing
  path: every 16-bit sample normalises to a finite number.)
\<close>

theorem cycle_error_ends_loop:
  assumes "stream_read SAMPLES_PER_CHUNK (device_buffer st) evs = Returned raw buf evs'"
    and "frombuffer raw = Inr chunk"
    and "model [process_audio lib chunk] = Inl e
         \<or> (\<exists>prediction. model [process_audio lib chunk] = Inr prediction
                \<and> decide prediction = Inl e)"
    and "e \<noteq> KeyboardInterrupt"
  shows "detection_loop lib model st evs =
           st\<lparr>device_buffer := buf, delivered := delivered st @ [chunk], status := Crashed e\<rparr>"
proof -
  have "detection_loop lib model st evs =
          raise_in_try e (st\<lparr>device_buffer := buf, delivered := delivered st @ [chunk]\<rparr>)"
    using assms(3)
  proof
    assume "model [process_audio lib chunk] = Inl e"
    with assms(1,2) show ?thesis
      by (rule loop_predict_raises [where model = model and lib = lib])
  next
    assume "\<exists>prediction. model [process_audio lib chunk] = Inr prediction
                \<and> decide prediction = Inl e"
    then obtain prediction where p: "model [process_audio lib chunk] = Inr prediction"
      and d: "decide prediction = Inl e" by blast
    from assms(1,2) p d show ?thesis
      by (rule loop_decide_raises [where model = model and lib = lib])
  qed
  then show ?thesis using assms(4) by (simp add: raise_in_try_def)
qed

theorem cycle_error_ends_loop_witness:
  "detection_loop \<lparr>center = True, coefficient = (\<lambda>y sr n_fft hop k t. 0)\<rparr>
      (\<lambda>batch. Inr [[0.1, 0.1, 0.8]]) listening
      [Arrives (replicate 44100 0), Arrives (replicate 44100 0)]
   = listening\<lparr>device_buffer := [], delivered := delivered listening @ [replicate 22050 0],
               status := Crashed IndexError\<rparr>"
proof -
  have rd: "stream_read SAMPLES_PER_CHUNK (device_buffer listening)
              [Arrives (replicate 44100 0), Arrives (replicate 44100 0)]
            = Returned (replicate 44100 0) [] [Arrives (replicate 44100 0)]"
    by (simp add: SAMPLES_PER_CHUNK_eq listening_def)
  have fb: "frombuffer (replicate 44100 0) = Inr (replicate 22050 0)"
    by (simp add: frombuffer_chunk_of)
  have dec: "decide [[0.1, 0.1, 0.8]] = Inl IndexError"
    by (simp add: decide_def np_argmax_def first_max_def getitem_def class_names_def)
  have pr: "(\<lambda>batch. Inr [[0.1, 0.1, 0.8]])
               [process_audio \<lparr>center = True, coefficient = (\<lambda>y sr n_fft hop k t. 0)\<rparr>
                  (replicate 22050 0)] = (Inl IndexError :: error + real list list)
         \<or> (\<exists>prediction. (\<lambda>batch. Inr [[0.1, 0.1, 0.8]])
               [process_audio \<lparr>center = True, coefficient = (\<lambda>y sr n_fft hop k t. 0)\<rparr>
                  (replicate 22050 0)] = Inr prediction
                \<and> decide prediction = Inl IndexError)"
    using dec by blast
  have ne: "IndexError \<noteq> KeyboardInterrupt" by simp
  show ?thesis
    by (rule cycle_error_ends_loop [OF rd fb pr ne])
qed

text \<open>
  Claim C4 as stated fails: with a model that raises on its first batch and two chunks
  delivered by the device, only the first chunk is processed and the loop has ended.
\<close>

theorem failing_cycle_counterexample:
  "detection_loop \<lparr>center = True, coefficient = (\<lambda>y sr n_fft hop k t. 0)\<rparr>
      (\<lambda>batch. Inl ValueError) listening
      [Arrives (replicate 44100 0), Arrives (replicate 44100 0)]
   = \<lparr>status = Crashed ValueError, stream_active = True, stream_open = True,
      pa_initialized = True, printed_lines = [], delivered = [replicate 22050 0],
      device_buffer = []\<rparr>"
  apply (subst detection_loop.simps)
  apply (simp add: listening_def SAMPLES_PER_CHUNK_eq frombuffer_chunk_of raise_in_try_def)
  done


text \<open>
  Claim C6, as the code has it. From the state in which the loop is entered and for
  every sequence of device events:
  \<^item> when the run ends stopped, the stream is inactive and closed and PyAudio is
    terminated;
  \<^item> when the loop is blocked in a read, an interrupt makes it stop the stream, close
    it, terminate PyAudio, print the final line and end in \<open>Stopped\<close>;
  \<^item> when the run ends with another exception, raised by the read or within a cycle,
    the stream is still active and open and PyAudio still initialised: the release
    calls are not made on that path;
  \<^item> once the run has ended either way, no later device event changes anything: no
    further cycle runs.
\<close>

theorem interrupt_releases_stream:
  "(status (detection_loop lib model listening evs) = Stopped \<longrightarrow>
       \<not> stream_active (detection_loop lib model listening evs)
     \<and> \<not> stream_open (detection_loop lib model listening evs)
     \<and> \<not> pa_initialized (detection_loop lib model listening evs))
   \<and> (status (detection_loop lib model listening evs) = Running \<longrightarrow>
       detection_loop lib model listening (evs @ [Interrupt]) =
         (detection_loop lib model listening evs)
           \<lparr>stream_active := False, stream_open := False, pa_initialized := False,
            printed_lines := printed_lines (detection_loop lib model listening evs) @ [StoppedLine],
            status := Stopped\<rparr>)
   \<and> (\<forall>e. status (detection_loop lib model listening evs) = Crashed e \<longrightarrow>
       e \<noteq> KeyboardInterrupt
     \<and> stream_active (detection_loop lib model listening evs)
     \<and> stream_open (detection_loop lib model listening evs)
     \<and> pa_initialized (detection_loop lib model listening evs))
   \<and> (status (detection_loop lib model listening evs) \<noteq> Running \<longrightarrow>
       (\<forall>later. detection_loop lib model listening (evs @ later)
                  = detection_loop lib model listening evs))"
proof -
  let ?f = "detection_loop lib model listening evs"
  have init: "status listening = Running" "stream_active listening" "stream_open listening"
    "pa_initialized listening"
    by (simp_all add: listening_def)
  note fin = loop_final [of lib model listening evs]
  have a: "\<not> stream_active ?f \<and> \<not> stream_open ?f \<and> \<not> pa_initialized ?f"
    if "status ?f = Stopped"
    using fin that init by auto
  have c: "e \<noteq> KeyboardInterrupt \<and> stream_active ?f \<and> stream_open ?f \<and> pa_initialized ?f"
    if "status ?f = Crashed e" for e
    using fin that init by auto
  have d: "detection_loop lib model listening (evs @ later) = ?f"
    if "status ?f \<noteq> Running" for later
    using that loop_append [OF init(1), of lib model evs later] by simp
  have b: "detection_loop lib model listening (evs @ [Interrupt]) =
         ?f\<lparr>stream_active := False, stream_open := False, pa_initialized := False,
            printed_lines := printed_lines ?f @ [StoppedLine], status := Stopped\<rparr>"
    if run: "status ?f = Running"
  proof -
    have small: "length (device_buffer ?f) < 2 * SAMPLES_PER_CHUNK"
      using fin run by auto
    have "detection_loop lib model listening (evs @ [Interrupt])
            = detection_loop lib model ?f [Interrupt]"
      using run loop_append [OF init(1), of lib model evs "[Interrupt]"] by simp
    also have "\<dots> = raise_in_try KeyboardInterrupt (?f\<lparr>device_buffer := device_buffer ?f\<rparr>)"
      by (rule loop_read_raises [where evs' = "[]"]) (use small in simp)
    finally show ?thesis by (simp add: raise_in_try_def)
  qed
  show ?thesis using a b c d by blast
qed

theorem interrupt_releases_stream_witness:
  "status (detection_loop \<lparr>center = True, coefficient = (\<lambda>y sr n_fft hop k t. 0)\<rparr>
             (\<lambda>batch. Inr [[0.05, 0.95]]) listening [Arrives (replicate 44100 0)]) = Running
   \<and> detection_loop \<lparr>center = True, coefficient = (\<lambda>y sr n_fft hop k t. 0)\<rparr>
        (\<lambda>batch. Inr [[0.05, 0.95]]) listening [Arrives (replicate 44100 0), Interrupt]
      = \<lparr>status = Stopped, stream_active = False, stream_open = False,
         pa_initialized = False, printed_lines = [BellDetected 0.95, StoppedLine],
         delivered = [replicate 22050 0], device_buffer = []\<rparr>
   \<and> detection_loop \<lparr>center = True, coefficient = (\<lambda>y sr n_fft hop k t. 0)\<rparr>
        (\<lambda>batch. Inr [[0.05, 0.95]]) listening
        [Arrives (replicate 44100 0), Interrupt, Arrives (replicate 44100 0)]
      = detection_loop \<lparr>center = True, coefficient = (\<lambda>y sr n_fft hop k t. 0)\<rparr>
        (\<lambda>batch. Inr [[0.05, 0.95]]) listening [Arrives (replicate 44100 0), Interrupt]
   \<and> status (detection_loop \<lparr>center = True, coefficient = (\<lambda>y sr n_fft hop k t. 0)\<rparr>
             (\<lambda>batch. Inr [[0.05, 0.95]]) listening [Fault]) = Crashed OSError
   \<and> stream_open (detection_loop \<lparr>center = True, coefficient = (\<lambda>y sr n_fft hop k t. 0)\<rparr>
             (\<lambda>batch. Inr [[0.05, 0.95]]) listening [Fault])"
proof -
  let ?lib = "\<lparr>center = True, coefficient = (\<lambda>y sr n_fft hop k t. 0)\<rparr>"
  let ?m = "\<lambda>batch :: real list list list. (Inr [[0.05, 0.95]] :: error + real list list)"
  let ?c = "Arrives (replicate 44100 0)"
  have s1: "status (detection_loop ?lib ?m listening [?c]) = Running"
    by (subst run_one_chunk) (simp add: listening_def)
  have "detection_loop ?lib ?m listening ([?c] @ [Interrupt]) =
         (detection_loop ?lib ?m listening [?c])
           \<lparr>stream_active := False, stream_open := False, pa_initialized := False,
            printed_lines := printed_lines (detection_loop ?lib ?m listening [?c]) @ [StoppedLine],
            status := Stopped\<rparr>"
    using interrupt_releases_stream [of ?lib ?m "[?c]"] s1 by blast
  then have r2: "detection_loop ?lib ?m listening [?c, Interrupt]
      = \<lparr>status = Stopped, stream_active = False, stream_open = False,
         pa_initialized = False, printed_lines = [BellDetected 0.95, StoppedLine],
         delivered = [replicate 22050 0], device_buffer = []\<rparr>"
    unfolding run_one_chunk by (simp add: listening_def)
  have "status (detection_loop ?lib ?m listening [?c, Interrupt]) \<noteq> Running"
    by (subst r2) simp
  then have "detection_loop ?lib ?m listening ([?c, Interrupt] @ [?c])
               = detection_loop ?lib ?m listening [?c, Interrupt]"
    using interrupt_releases_stream [of ?lib ?m "[?c, Interrupt]"] by blast
  then have r3: "detection_loop ?lib ?m listening [?c, Interrupt, ?c]
               = detection_loop ?lib ?m listening [?c, Interrupt]"
    by simp
  have s4: "status (detection_loop ?lib ?m listening [Fault]) = Crashed OSError"
    by (subst run_fault) simp
  then have r4: "stream_open (detection_loop ?lib ?m listening [Fault])"
    using interrupt_releases_stream [of ?lib ?m "[Fault]"] by blast
  show ?thesis using s1 r2 r3 s4 r4 by blast
qed

text \<open>
  Claim C6 as stated fails: when the read fails on a device fault, the loop ends with
  the stream still active and open.
\<close>

theorem read_failure_counterexample:
  "detection_loop \<lparr>center = True, coefficient = (\<lambda>y sr n_fft hop k t. 0)\<rparr>
      (\<lambda>batch. Inr [[0.05, 0.95]]) listening [Fault]
   = \<lparr>status = Crashed OSError, stream_active = True, stream_open = True,
      pa_initialized = True, printed_lines = [], delivered = [], device_buffer = []\<rparr>"
  by (rule run_fault)

end
